theory Spec2Isabelle
  imports Main "HOL-Library.Multiset"
begin

section \<open>The alias API of \<^verbatim>\<open>app/api/views/alias.py\<close>\<close>

text \<open>
  A shallow embedding of the request handlers of \<^verbatim>\<open>src/app/api/views/alias.py\<close>:
  delete, toggle, update note, list activities, list contacts and create contact.
  Each handler is a function from the persistent store and the request to a result and
  the store after the request. An exception that leaves the handler is a value of
  \<open>error\<close>; a \<^verbatim>\<open>return jsonify(...), code\<close> is a payload with its status code.
\<close>

subsection \<open>Rows of the store\<close>

text \<open>Timestamps (Arrow objects in the source) are seconds since the epoch.\<close>

type_synonym arrow = int

record Alias =
  a_id :: nat
  a_email :: string
  a_user_id :: nat
  a_enabled :: bool
  a_created_at :: arrow
  a_note :: "string option"

record Contact =
  c_id :: nat
  gen_email_id :: nat
  website_from :: "string option"
  website_email :: string
  reply_email :: string
  c_created_at :: arrow

record EmailLog =
  el_id :: nat
  el_contact_id :: nat
  el_is_reply :: bool
  el_created_at :: arrow

text \<open>
  The store: the three tables, and the sequence that numbers new Contact rows.
\<close>

record store =
  aliases :: "Alias list"
  contacts :: "Contact list"
  email_logs :: "EmailLog list"
  contact_seq :: nat

text \<open>
  One entry of \<^verbatim>\<open>get_alias_log(alias, page_id)\<close>: the fields that
  \<^verbatim>\<open>get_alias_activities\<close> reads from it.
\<close>

record AliasLog =
  when_ts :: arrow
  is_reply :: bool
  l_alias :: string
  l_website_from :: "string option"
  l_website_email :: string
  bounced :: bool
  blocked :: bool

subsection \<open>Requests, errors and responses\<close>

text \<open>
  \<^verbatim>\<open>request.get_json()\<close>: no JSON body (\<^verbatim>\<open>None\<close>), a JSON object whose
  members are strings or null (the documented inputs \<^verbatim>\<open>note\<close> and
  \<^verbatim>\<open>contact\<close>), or any other JSON value, of which only the truth value matters
  before \<^verbatim>\<open>data.get\<close> fails on it.
\<close>

datatype request_json =
    JNone
  | JObject "(string \<times> string option) list"
  | JOther bool

datatype error = NotFound | AttributeError | IntegrityError | DataError

datatype jvalue = JTimestamp arrow | JString string

type_synonym activity = "string \<rightharpoonup> jvalue"

record contact_json =
  creation_date :: string
  creation_timestamp :: arrow
  last_email_sent_date :: "string option"
  last_email_sent_timestamp :: "arrow option"
  contact :: string
  reverse_alias :: string

datatype payload =
    P_error string
  | P_deleted bool
  | P_enabled bool
  | P_note "string option"
  | P_activities "activity list"
  | P_contacts "contact_json list"
  | P_contact contact_json

type_synonym response = "payload \<times> nat"

type_synonym outcome = "(error + response) \<times> store"

subsection \<open>What the handlers import\<close>

text \<open>
  Constants and functions that the module imports from the configuration, from the
  libraries and from modules outside \<^verbatim>\<open>src/\<close>, taken as parameters:
  \<^verbatim>\<open>EMAIL_DOMAIN\<close> and \<^verbatim>\<open>PAGE_LIMIT\<close> of \<^verbatim>\<open>app.config\<close>;
  \<^verbatim>\<open>int(s)\<close> on a query argument (\<open>None\<close> when it raises \<^verbatim>\<open>ValueError\<close>);
  the parse of a non-empty address field by \<^verbatim>\<open>email.utils.parseaddr\<close>;
  \<^verbatim>\<open>Arrow.format()\<close>; the display name that \<^verbatim>\<open>website_send_to\<close> shows;
  and \<^verbatim>\<open>get_alias_log\<close> of \<^verbatim>\<open>app.dashboard.views.alias_log\<close>.
\<close>

record env =
  EMAIL_DOMAIN :: string
  PAGE_LIMIT :: nat
  py_int :: "string \<Rightarrow> int option"
  parse_field :: "string \<Rightarrow> string \<times> string"
  arrow_format :: "arrow \<Rightarrow> string"
  display_name :: "Contact \<Rightarrow> string"
  get_alias_log :: "store \<Rightarrow> Alias \<Rightarrow> int \<Rightarrow> AliasLog list"

text \<open>
  The randomness of one request: the infinite sequence of the characters that its calls
  of \<^verbatim>\<open>random_string\<close> draw, one after the other.
\<close>

type_synonym draws = "nat \<Rightarrow> char"

text \<open>\<^verbatim>\<open>not data\<close> is the negation of Python's truth value of the body.\<close>

fun py_truthy :: "request_json \<Rightarrow> bool" where
  "py_truthy JNone = False"
| "py_truthy (JObject kvs) = (kvs \<noteq> [])"
| "py_truthy (JOther b) = b"

text \<open>
  \<^verbatim>\<open>data.get(key)\<close>: the member, \<^verbatim>\<open>None\<close> when the object has no such member;
  a value that is not an object has no \<^verbatim>\<open>get\<close>.
\<close>

fun data_get :: "request_json \<Rightarrow> string \<Rightarrow> error + string option" where
  "data_get (JObject kvs) k = Inr (case map_of kvs k of None \<Rightarrow> None | Some v \<Rightarrow> v)"
| "data_get JNone k = Inl AttributeError"
| "data_get (JOther b) k = Inl AttributeError"

text \<open>
  \<^verbatim>\<open>int(request.args.get("page_id"))\<close> under \<^verbatim>\<open>except (ValueError, TypeError)\<close>:
  \<open>None\<close> when the argument is missing (\<^verbatim>\<open>int(None)\<close> raises \<^verbatim>\<open>TypeError\<close>) or is
  not an integer.
\<close>

definition parse_page_id :: "env \<Rightarrow> string option \<Rightarrow> int option" where
  "parse_page_id E arg = (case arg of None \<Rightarrow> None | Some s \<Rightarrow> py_int E s)"

text \<open>
  \<^verbatim>\<open>a or b\<close> on a nullable string and a string: \<open>a\<close> when it is neither
  \<^verbatim>\<open>None\<close> nor empty.
\<close>

definition py_or :: "string option \<Rightarrow> string \<Rightarrow> string" where
  "py_or a b = (case a of None \<Rightarrow> b | Some s \<Rightarrow> if s = [] then b else s)"

text \<open>
  \<^verbatim>\<open>email.utils.parseaddr\<close> of the standard library: a field that is \<^verbatim>\<open>None\<close> or
  the empty string has an empty address list, and the result is \<^verbatim>\<open>('', '')\<close>; the
  parse of a non-empty field is the parameter \<open>parse_field\<close>.
\<close>

definition parseaddr :: "env \<Rightarrow> string option \<Rightarrow> string \<times> string" where
  "parseaddr E addr =
     (case addr of
        None \<Rightarrow> ([], [])
      | Some s \<Rightarrow> if s = [] then ([], []) else parse_field E s)"

subsection \<open>The model layer\<close>

text \<open>
  Modelled from the spec: \<^verbatim>\<open>Alias.get\<close> (\<^verbatim>\<open>app.models\<close>, not under
  \<^verbatim>\<open>src/\<close>). "Alias lookup itself fails with NotFound if the id does not exist."
\<close>

definition Alias_get :: "store \<Rightarrow> nat \<Rightarrow> error + Alias" where
  "Alias_get st aid =
     (case find (\<lambda>a. a_id a = aid) (aliases st) of
        None \<Rightarrow> Inl NotFound
      | Some a \<Rightarrow> Inr a)"

text \<open>
  Modelled from the spec: \<^verbatim>\<open>Alias.delete\<close> (\<^verbatim>\<open>app.models\<close>, not under
  \<^verbatim>\<open>src/\<close>). "delete removes the Alias and cascades to dependents": the alias, its
  contacts and the logs of those contacts.
\<close>

definition Alias_delete :: "store \<Rightarrow> nat \<Rightarrow> store" where
  "Alias_delete st aid =
     (let gone = map c_id (filter (\<lambda>c. gen_email_id c = aid) (contacts st))
      in st\<lparr>aliases := filter (\<lambda>a. a_id a \<noteq> aid) (aliases st),
            contacts := filter (\<lambda>c. gen_email_id c \<noteq> aid) (contacts st),
            email_logs := filter (\<lambda>l. el_contact_id l \<notin> set gone) (email_logs st)\<rparr>)"

text \<open>
  Writing a changed alias back (\<^verbatim>\<open>alias.enabled = ...\<close>, \<^verbatim>\<open>alias.note = ...\<close>
  followed by \<^verbatim>\<open>db.session.commit()\<close>): the row with the alias's id is replaced.
\<close>

definition Alias_put :: "store \<Rightarrow> Alias \<Rightarrow> store" where
  "Alias_put st a' =
     st\<lparr>aliases := map (\<lambda>a. if a_id a = a_id a' then a' else a) (aliases st)\<rparr>"

text \<open>
  Modelled from the spec: \<^verbatim>\<open>Contact.get_by\<close> (\<^verbatim>\<open>app.models\<close>, not under
  \<^verbatim>\<open>src/\<close>), the read-only existence check against the persistent store, by reply
  address and by (alias, correspondent address).
\<close>

definition Contact_get_by_reply_email :: "store \<Rightarrow> string \<Rightarrow> Contact option" where
  "Contact_get_by_reply_email st r = find (\<lambda>c. reply_email c = r) (contacts st)"

definition Contact_get_by_website_email :: "store \<Rightarrow> nat \<Rightarrow> string \<Rightarrow> Contact option" where
  "Contact_get_by_website_email st gid w =
     find (\<lambda>c. gen_email_id c = gid \<and> website_email c = w) (contacts st)"

text \<open>
  Modelled from the spec: \<^verbatim>\<open>Contact.create\<close> (\<^verbatim>\<open>app.models\<close>, not under
  \<^verbatim>\<open>src/\<close>). "Persist a new Contact row atomically; the persistence layer's
  uniqueness constraint on reply_email is the authoritative defense against any
  IdentityGenerator collision slipping through": a row whose reply address is already in
  the table is refused, any other row is appended under the next id of the sequence.
\<close>

definition Contact_create ::
  "store \<Rightarrow> arrow \<Rightarrow> nat \<Rightarrow> string \<Rightarrow> string option \<Rightarrow> string \<Rightarrow> error + (Contact \<times> store)" where
  "Contact_create st now gid w raw r =
     (if r \<in> set (map reply_email (contacts st)) then Inl IntegrityError
      else
        let c = \<lparr>c_id = contact_seq st, gen_email_id = gid, website_from = raw,
                 website_email = w, reply_email = r, c_created_at = now\<rparr>
        in Inr (c, st\<lparr>contacts := contacts st @ [c], contact_seq := Suc (contact_seq st)\<rparr>))"

text \<open>
  Modelled from the spec: \<^verbatim>\<open>Contact.website_send_to\<close> (\<^verbatim>\<open>app.models\<close>, not
  under \<^verbatim>\<open>src/\<close>). "a formatted "Display <reply_email>" style string combining the
  correspondent's display name (if known) with the reply address".
\<close>

definition website_send_to :: "env \<Rightarrow> Contact \<Rightarrow> string" where
  "website_send_to E fe = display_name E fe @ '' <'' @ reply_email fe @ ''>''"

text \<open>
  Modelled from the spec: \<^verbatim>\<open>Contact.last_reply\<close> (\<^verbatim>\<open>app.models\<close>, not under
  \<^verbatim>\<open>src/\<close>). "the most recent reply-direction EmailLog tied to this Contact, or null
  if none exists": of the contact's reply logs, one with the greatest timestamp.
\<close>

fun most_recent :: "EmailLog list \<Rightarrow> EmailLog option" where
  "most_recent [] = None"
| "most_recent (l # ls) =
     (case most_recent ls of
        None \<Rightarrow> Some l
      | Some m \<Rightarrow> if el_created_at m \<le> el_created_at l then Some l else Some m)"

definition last_reply :: "store \<Rightarrow> Contact \<Rightarrow> EmailLog option" where
  "last_reply st fe =
     most_recent (filter (\<lambda>l. el_contact_id l = c_id fe \<and> el_is_reply l) (email_logs st))"

text \<open>
  Modelled from the spec: \<^verbatim>\<open>random_string\<close> (\<^verbatim>\<open>app.utils\<close>, not under
  \<^verbatim>\<open>src/\<close>). "the random token is drawn from a ... random alphabet of fixed length":
  the next \<open>n\<close> draws of the sequence, read from position \<open>pos\<close>, and the position
  after them.
\<close>

definition random_string :: "draws \<Rightarrow> nat \<Rightarrow> nat \<Rightarrow> string \<times> nat" where
  "random_string rnd pos n = (map rnd [pos ..< pos + n], pos + n)"

subsection \<open>The handlers\<close>

text \<open>
  \<^verbatim>\<open>delete_alias\<close> (lines 72-90). \<open>uid\<close> is \<^verbatim>\<open>g.user.id\<close>, \<open>aid\<close> the
  \<^verbatim>\<open>alias_id\<close> of the URL.
\<close>

definition delete_alias :: "store \<Rightarrow> nat \<Rightarrow> nat \<Rightarrow> outcome" where
  "delete_alias st uid aid =
     (case Alias_get st aid of
        Inl e \<Rightarrow> (Inl e, st)
      | Inr alias \<Rightarrow>
          if a_user_id alias \<noteq> uid then (Inr (P_error ''Forbidden'', 403), st)
          else (Inr (P_deleted True, 200), Alias_delete st aid))"

text \<open>\<^verbatim>\<open>toggle_alias\<close> (lines 96-116).\<close>

definition toggle_alias :: "store \<Rightarrow> nat \<Rightarrow> nat \<Rightarrow> outcome" where
  "toggle_alias st uid aid =
     (case Alias_get st aid of
        Inl e \<Rightarrow> (Inl e, st)
      | Inr alias \<Rightarrow>
          if a_user_id alias \<noteq> uid then (Inr (P_error ''Forbidden'', 403), st)
          else
            let alias' = alias\<lparr>a_enabled := \<not> a_enabled alias\<rparr>
            in (Inr (P_enabled (a_enabled alias'), 200), Alias_put st alias'))"

text \<open>
  The body of the loop of \<^verbatim>\<open>get_alias_activities\<close> (lines 150-164): the dictionary
  \<^verbatim>\<open>activity\<close>, key by key in the order of the source.
\<close>

definition activity_of :: "AliasLog \<Rightarrow> activity" where
  "activity_of alias_log =
     (let activity = [''timestamp'' \<mapsto> JTimestamp (when_ts alias_log)] in
      if is_reply alias_log then
        activity(''from'' \<mapsto> JString (l_alias alias_log),
                 ''to'' \<mapsto> JString (py_or (l_website_from alias_log) (l_website_email alias_log)),
                 ''action'' \<mapsto> JString ''reply'')
      else
        let activity =
              activity(''to'' \<mapsto> JString (l_alias alias_log),
                       ''from'' \<mapsto>
                         JString (py_or (l_website_from alias_log) (l_website_email alias_log)))
        in if bounced alias_log then activity(''action'' \<mapsto> JString ''bounced'')
           else if blocked alias_log then activity(''action'' \<mapsto> JString ''block'')
           else activity(''action'' \<mapsto> JString ''forward''))"

text \<open>The loop (lines 148-166): every entry's activity is appended to the list.\<close>

fun activities_loop :: "AliasLog list \<Rightarrow> activity list \<Rightarrow> activity list" where
  "activities_loop [] activities = activities"
| "activities_loop (alias_log # alias_logs) activities =
     activities_loop alias_logs (activities @ [activity_of alias_log])"

text \<open>
  \<^verbatim>\<open>get_alias_activities\<close> (lines 122-168). \<open>arg\<close> is
  \<^verbatim>\<open>request.args.get("page_id")\<close>.
\<close>

definition get_alias_activities :: "env \<Rightarrow> store \<Rightarrow> nat \<Rightarrow> nat \<Rightarrow> string option \<Rightarrow> outcome" where
  "get_alias_activities E st uid aid arg =
     (case parse_page_id E arg of
        None \<Rightarrow> (Inr (P_error ''page_id must be provided in request query'', 400), st)
      | Some page_id \<Rightarrow>
          (case Alias_get st aid of
             Inl e \<Rightarrow> (Inl e, st)
           | Inr alias \<Rightarrow>
               if a_user_id alias \<noteq> uid then (Inr (P_error ''Forbidden'', 403), st)
               else
                 let alias_logs = get_alias_log E st alias page_id
                 in (Inr (P_activities (activities_loop alias_logs []), 200), st)))"

text \<open>\<^verbatim>\<open>update_alias\<close> (lines 174-199). \<open>data\<close> is \<^verbatim>\<open>request.get_json()\<close>.\<close>

definition update_alias :: "store \<Rightarrow> nat \<Rightarrow> nat \<Rightarrow> request_json \<Rightarrow> outcome" where
  "update_alias st uid aid data =
     (if \<not> py_truthy data then (Inr (P_error ''request body cannot be empty'', 400), st)
      else
        (case Alias_get st aid of
           Inl e \<Rightarrow> (Inl e, st)
         | Inr alias \<Rightarrow>
             if a_user_id alias \<noteq> uid then (Inr (P_error ''Forbidden'', 403), st)
             else
               (case data_get data ''note'' of
                  Inl e \<Rightarrow> (Inl e, st)
                | Inr new_note \<Rightarrow>
                    (Inr (P_note new_note, 200), Alias_put st (alias\<lparr>a_note := new_note\<rparr>)))))"

text \<open>\<^verbatim>\<open>serialize_contact\<close> (lines 202-218).\<close>

definition serialize_contact :: "env \<Rightarrow> store \<Rightarrow> Contact \<Rightarrow> contact_json" where
  "serialize_contact E st fe =
     (let res = \<lparr>creation_date = arrow_format E (c_created_at fe),
                 creation_timestamp = c_created_at fe,
                 last_email_sent_date = None,
                 last_email_sent_timestamp = None,
                 contact = py_or (website_from fe) (website_email fe),
                 reverse_alias = website_send_to E fe\<rparr>
      in case last_reply st fe of
           None \<Rightarrow> res
         | Some fel \<Rightarrow>
             res\<lparr>last_email_sent_date := Some (arrow_format E (el_created_at fel)),
                 last_email_sent_timestamp := Some (el_created_at fel)\<rparr>)"

text \<open>
  The query \<^verbatim>\<open>q\<close> of \<^verbatim>\<open>get_alias_contacts\<close> (lines 222-227), as the rows of
  \<^verbatim>\<open>q.all()\<close>: the alias's contacts by descending id, \<^verbatim>\<open>OFFSET\<close> rows skipped and
  at most \<^verbatim>\<open>LIMIT\<close> rows kept. The database refuses a negative \<^verbatim>\<open>OFFSET\<close>.
\<close>

definition contacts_query :: "env \<Rightarrow> store \<Rightarrow> Alias \<Rightarrow> int \<Rightarrow> error + Contact list" where
  "contacts_query E st alias page_id =
     (if page_id * int (PAGE_LIMIT E) < 0 then Inl DataError
      else
        Inr (take (PAGE_LIMIT E)
               (drop (nat (page_id * int (PAGE_LIMIT E)))
                  (rev (sort_key c_id
                     (filter (\<lambda>c. gen_email_id c = a_id alias) (contacts st)))))))"

text \<open>The loop of \<^verbatim>\<open>get_alias_contacts\<close> (lines 229-233).\<close>

fun serialize_loop :: "env \<Rightarrow> store \<Rightarrow> Contact list \<Rightarrow> contact_json list \<Rightarrow> contact_json list" where
  "serialize_loop E st [] res = res"
| "serialize_loop E st (fe # fes) res = serialize_loop E st fes (res @ [serialize_contact E st fe])"

definition get_alias_contacts :: "env \<Rightarrow> store \<Rightarrow> Alias \<Rightarrow> int \<Rightarrow> error + contact_json list" where
  "get_alias_contacts E st alias page_id =
     (case contacts_query E st alias page_id of
        Inl e \<Rightarrow> Inl e
      | Inr q \<Rightarrow> Inr (serialize_loop E st q []))"

text \<open>\<^verbatim>\<open>get_alias_contacts_route\<close> (lines 239-267).\<close>

definition get_alias_contacts_route ::
  "env \<Rightarrow> store \<Rightarrow> nat \<Rightarrow> nat \<Rightarrow> string option \<Rightarrow> outcome" where
  "get_alias_contacts_route E st uid aid arg =
     (case parse_page_id E arg of
        None \<Rightarrow> (Inr (P_error ''page_id must be provided in request query'', 400), st)
      | Some page_id \<Rightarrow>
          (case Alias_get st aid of
             Inl e \<Rightarrow> (Inl e, st)
           | Inr alias \<Rightarrow>
               if a_user_id alias \<noteq> uid then (Inr (P_error ''Forbidden'', 403), st)
               else
                 (case get_alias_contacts E st alias page_id of
                    Inl e \<Rightarrow> (Inl e, st)
                  | Inr res \<Rightarrow> (Inr (P_contacts res, 200), st))))"

text \<open>
  The f-string of lines 299 and 301: \<^verbatim>\<open>ra+\<close>, \<^verbatim>\<open>random_string(25)\<close>, an at
  sign and \<^verbatim>\<open>EMAIL_DOMAIN\<close>. The candidate drawn from position \<open>pos\<close> of the random
  draws, and the position after it.
\<close>

definition candidate :: "env \<Rightarrow> draws \<Rightarrow> nat \<Rightarrow> string \<times> nat" where
  "candidate E rnd pos =
     (let (token, pos') = random_string rnd pos 25
      in (''ra+'' @ token @ ''@'' @ EMAIL_DOMAIN E, pos'))"

text \<open>
  The loop \<^verbatim>\<open>for _ in range(1000)\<close> (lines 300-303) with \<open>n\<close> iterations left: a
  new candidate replaces \<^verbatim>\<open>reply_email\<close>, and the loop breaks when no contact has it.
\<close>

fun reply_email_loop ::
  "env \<Rightarrow> draws \<Rightarrow> store \<Rightarrow> nat \<Rightarrow> string \<Rightarrow> nat \<Rightarrow> string \<times> nat" where
  "reply_email_loop E rnd st 0 reply pos = (reply, pos)"
| "reply_email_loop E rnd st (Suc n) reply pos =
     (let (reply', pos') = candidate E rnd pos
      in if Contact_get_by_reply_email st reply' = None then (reply', pos')
         else reply_email_loop E rnd st n reply' pos')"

text \<open>
  Lines 299-303: a first candidate before the loop, then the loop. The result is the
  value of \<^verbatim>\<open>reply_email\<close> after the loop and the number of characters drawn.
\<close>

definition generate_reply_email :: "env \<Rightarrow> draws \<Rightarrow> store \<Rightarrow> string \<times> nat" where
  "generate_reply_email E rnd st =
     (let (reply, pos) = candidate E rnd 0
      in reply_email_loop E rnd st 1000 reply pos)"

text \<open>
  \<^verbatim>\<open>create_contact_route\<close> (lines 273-321). \<open>rnd\<close> are the random draws of the
  request and \<open>now\<close> is the creation time of the new row.
\<close>

definition create_contact_route ::
  "env \<Rightarrow> draws \<Rightarrow> arrow \<Rightarrow> store \<Rightarrow> nat \<Rightarrow> nat \<Rightarrow> request_json \<Rightarrow> outcome" where
  "create_contact_route E rnd now st uid aid data =
     (if \<not> py_truthy data then (Inr (P_error ''request body cannot be empty'', 400), st)
      else
        (case Alias_get st aid of
           Inl e \<Rightarrow> (Inl e, st)
         | Inr alias \<Rightarrow>
             if a_user_id alias \<noteq> uid then (Inr (P_error ''Forbidden'', 403), st)
             else
               (case data_get data ''contact'' of
                  Inl e \<Rightarrow> (Inl e, st)
                | Inr contact_email \<Rightarrow>
                    let reply = fst (generate_reply_email E rnd st);
                        address = snd (parseaddr E contact_email)
                    in if Contact_get_by_website_email st (a_id alias) address \<noteq> None
                       then (Inr (P_error ''Contact already added'', 409), st)
                       else
                         (case Contact_create st now (a_id alias) address contact_email reply of
                            Inl e \<Rightarrow> (Inl e, st)
                          | Inr (new_contact, st') \<Rightarrow>
                              (Inr (P_contact (serialize_contact E st' new_contact), 201), st')))))"

subsection \<open>Sequences of requests\<close>

text \<open>
  A request to one of the six handlers, with the user, the alias id and the input of
  the handler, and the run of a list of requests on the store, one after the other.
\<close>

datatype request =
    DeleteAlias nat nat
  | ToggleAlias nat nat
  | GetActivities nat nat "string option"
  | UpdateAlias nat nat request_json
  | GetContacts nat nat "string option"
  | CreateContact draws arrow nat nat request_json

fun handle :: "env \<Rightarrow> store \<Rightarrow> request \<Rightarrow> outcome" where
  "handle E st (DeleteAlias uid aid) = delete_alias st uid aid"
| "handle E st (ToggleAlias uid aid) = toggle_alias st uid aid"
| "handle E st (GetActivities uid aid arg) = get_alias_activities E st uid aid arg"
| "handle E st (UpdateAlias uid aid data) = update_alias st uid aid data"
| "handle E st (GetContacts uid aid arg) = get_alias_contacts_route E st uid aid arg"
| "handle E st (CreateContact rnd now uid aid data) = create_contact_route E rnd now st uid aid data"

fun run :: "env \<Rightarrow> store \<Rightarrow> request list \<Rightarrow> store" where
  "run E st [] = st"
| "run E st (r # rs) = run E (snd (handle E st r)) rs"

subsection \<open>The specification's tables\<close>

text \<open>
  The correspondent of a log entry in the words of the specification: "correspondent
  raw-from, else correspondent email".
\<close>

definition spec_correspondent :: "AliasLog \<Rightarrow> string" where
  "spec_correspondent l =
     (if l_website_from l = None \<or> l_website_from l = Some [] then l_website_email l
      else the (l_website_from l))"

text \<open>The four rows of the classification table of the specification.\<close>

fun spec_action :: "bool \<Rightarrow> bool \<Rightarrow> bool \<Rightarrow> string" where
  "spec_action True b k = ''reply''"
| "spec_action False True k = ''bounced''"
| "spec_action False False True = ''block''"
| "spec_action False False False = ''forward''"

definition spec_activity :: "AliasLog \<Rightarrow> activity" where
  "spec_activity l =
     [''timestamp'' \<mapsto> JTimestamp (when_ts l),
      ''from'' \<mapsto> JString (if is_reply l then l_alias l else spec_correspondent l),
      ''to'' \<mapsto> JString (if is_reply l then spec_correspondent l else l_alias l),
      ''action'' \<mapsto> JString (spec_action (is_reply l) (bounced l) (blocked l))]"

text \<open>
  The candidate of attempt \<open>k\<close> of the identity generator in the words of the
  specification: prefix, a token of 25 random characters, \<open>@\<close>, domain. Attempt \<open>k\<close>
  reads the draws from \<open>25 * k\<close> on; the candidate that the handler draws before its
  loop is number 0, the attempts of the loop are 1 to 1000.
\<close>

definition spec_token :: "draws \<Rightarrow> nat \<Rightarrow> string" where
  "spec_token rnd k = map rnd [25 * k ..< 25 * k + 25]"

definition spec_candidate :: "env \<Rightarrow> draws \<Rightarrow> nat \<Rightarrow> string" where
  "spec_candidate E rnd k = ''ra+'' @ spec_token rnd k @ ''@'' @ EMAIL_DOMAIN E"

text \<open>A reply address is taken when a contact of the store has it.\<close>

definition taken :: "store \<Rightarrow> string \<Rightarrow> bool" where
  "taken st r = (r \<in> set (map reply_email (contacts st)))"

text \<open>The reply-direction logs tied to a contact, and their timestamps.\<close>

definition reply_logs :: "store \<Rightarrow> Contact \<Rightarrow> EmailLog list" where
  "reply_logs st fe = filter (\<lambda>l. el_contact_id l = c_id fe \<and> el_is_reply l) (email_logs st)"

text \<open>The contacts of an alias, in the order of the table.\<close>

definition contacts_of :: "store \<Rightarrow> nat \<Rightarrow> Contact list" where
  "contacts_of st aid = filter (\<lambda>c. gen_email_id c = aid) (contacts st)"

subsection \<open>A worked instance\<close>

text \<open>
  An environment and two stores for the worked examples. The parser instance reads
  \<open>name <address>\<close> and a bare address; \<open>decimal\<close> reads unsigned decimal numerals;
  the random draws \<open>rnd0\<close> are the letter \<open>a\<close> throughout, so that every candidate
  of the generator is the same address, and \<open>rnd1\<close> are the letter \<open>e\<close> throughout.
\<close>

definition decimal :: "string \<Rightarrow> int option" where
  "decimal s =
     (if s \<noteq> [] \<and> list_all (\<lambda>c. c \<in> set ''0123456789'') s
      then Some (foldl (\<lambda>n c. 10 * n + (int (of_char c) - 48)) 0 s)
      else None)"

definition angle_addr :: "string \<Rightarrow> string \<times> string" where
  "angle_addr s =
     (if CHR ''<'' \<in> set s
      then (takeWhile (\<lambda>c. c \<noteq> CHR '' '') s,
            takeWhile (\<lambda>c. c \<noteq> CHR ''>'') (tl (dropWhile (\<lambda>c. c \<noteq> CHR ''<'') s)))
      else ([], s))"

definition log_forward :: AliasLog where
  "log_forward = \<lparr>when_ts = 9, is_reply = False, l_alias = ''a1@sl.local'',
     l_website_from = Some ''Alice <alice@x.com>'', l_website_email = ''alice@x.com'',
     bounced = False, blocked = False\<rparr>"

definition log_bounced_blocked :: AliasLog where
  "log_bounced_blocked = \<lparr>when_ts = 8, is_reply = False, l_alias = ''a1@sl.local'',
     l_website_from = None, l_website_email = ''alice@x.com'',
     bounced = True, blocked = True\<rparr>"

definition log_reply :: AliasLog where
  "log_reply = \<lparr>when_ts = 7, is_reply = True, l_alias = ''a1@sl.local'',
     l_website_from = Some [], l_website_email = ''alice@x.com'',
     bounced = True, blocked = True\<rparr>"

definition env0 :: env where
  "env0 = \<lparr>EMAIL_DOMAIN = ''sl.local'', PAGE_LIMIT = 2, py_int = decimal,
     parse_field = angle_addr,
     arrow_format = (\<lambda>t. replicate (nat t) (CHR ''i'')),
     display_name = (\<lambda>c. fst (angle_addr (py_or (website_from c) (website_email c)))),
     get_alias_log = (\<lambda>st a p. if p = 0 then [log_forward, log_bounced_blocked, log_reply] else [])\<rparr>"

definition rnd0 :: draws where
  "rnd0 = (\<lambda>i. CHR ''a'')"

definition rnd1 :: draws where
  "rnd1 = (\<lambda>i. CHR ''e'')"

definition alias1 :: Alias where
  "alias1 = \<lparr>a_id = 1, a_email = ''a1@sl.local'', a_user_id = 1, a_enabled = True,
     a_created_at = 1, a_note = None\<rparr>"

definition alias2 :: Alias where
  "alias2 = \<lparr>a_id = 2, a_email = ''a2@sl.local'', a_user_id = 2, a_enabled = True,
     a_created_at = 2, a_note = None\<rparr>"

definition alice :: Contact where
  "alice = \<lparr>c_id = 1, gen_email_id = 1, website_from = Some ''Alice <alice@x.com>'',
     website_email = ''alice@x.com'',
     reply_email = ''ra+aaaaaaaaaaaaaaaaaaaaaaaaa@sl.local'', c_created_at = 3\<rparr>"

definition carol :: Contact where
  "carol = \<lparr>c_id = 2, gen_email_id = 2, website_from = None,
     website_email = ''carol@x.com'',
     reply_email = ''ra+bbbbbbbbbbbbbbbbbbbbbbbbb@sl.local'', c_created_at = 4\<rparr>"

definition dave :: Contact where
  "dave = \<lparr>c_id = 3, gen_email_id = 1, website_from = Some [],
     website_email = ''dave@x.com'',
     reply_email = ''ra+ccccccccccccccccccccccccc@sl.local'', c_created_at = 5\<rparr>"

definition erin :: Contact where
  "erin = \<lparr>c_id = 4, gen_email_id = 1, website_from = Some ''erin@x.com'',
     website_email = ''erin@x.com'',
     reply_email = ''ra+ddddddddddddddddddddddddd@sl.local'', c_created_at = 6\<rparr>"

text \<open>\<open>store0\<close> has the two aliases and no contact.\<close>

definition store0 :: store where
  "store0 = \<lparr>aliases = [alias1, alias2], contacts = [], email_logs = [], contact_seq = 1\<rparr>"

text \<open>
  \<open>store1\<close> has four contacts, three of them of alias 1, and three logs of the first
  contact. The reply address of the first contact is the one candidate that \<open>rnd0\<close>
  draws.
\<close>

definition store1 :: store where
  "store1 = \<lparr>aliases = [alias1, alias2], contacts = [alice, carol, dave, erin],
     email_logs =
       [\<lparr>el_id = 1, el_contact_id = 1, el_is_reply = True, el_created_at = 7\<rparr>,
        \<lparr>el_id = 2, el_contact_id = 1, el_is_reply = True, el_created_at = 5\<rparr>,
        \<lparr>el_id = 3, el_contact_id = 1, el_is_reply = False, el_created_at = 9\<rparr>],
     contact_seq = 5\<rparr>"

text \<open>
  The request of the specification's scenario, the contact that it creates in
  \<open>store0\<close> under the draws \<open>rnd0\<close> at time 10, the store after it and the JSON of
  the response.
\<close>

definition bob_body :: request_json where
  "bob_body = JObject [(''contact'', Some ''Bob <bob@x.com>'')]"

definition bob :: Contact where
  "bob = \<lparr>c_id = 1, gen_email_id = 1, website_from = Some ''Bob <bob@x.com>'',
     website_email = ''bob@x.com'',
     reply_email = ''ra+aaaaaaaaaaaaaaaaaaaaaaaaa@sl.local'', c_created_at = 10\<rparr>"

definition store_bob :: store where
  "store_bob = \<lparr>aliases = [alias1, alias2], contacts = [bob], email_logs = [], contact_seq = 2\<rparr>"

definition bob_json :: contact_json where
  "bob_json = \<lparr>creation_date = ''iiiiiiiiii'', creation_timestamp = 10,
     last_email_sent_date = None, last_email_sent_timestamp = None,
     contact = ''Bob <bob@x.com>'',
     reverse_alias = ''Bob <ra+aaaaaaaaaaaaaaaaaaaaaaaaa@sl.local>''\<rparr>"

text \<open>A request with an empty contact, and the contact that it creates in \<open>store0\<close>.\<close>

definition blank_body :: request_json where
  "blank_body = JObject [(''contact'', Some [])]"

definition blank :: Contact where
  "blank = \<lparr>c_id = 1, gen_email_id = 1, website_from = Some [],
     website_email = [],
     reply_email = ''ra+aaaaaaaaaaaaaaaaaaaaaaaaa@sl.local'', c_created_at = 10\<rparr>"

definition store_blank :: store where
  "store_blank = \<lparr>aliases = [alias1, alias2], contacts = [blank], email_logs = [], contact_seq = 2\<rparr>"

definition blank_json :: contact_json where
  "blank_json = \<lparr>creation_date = ''iiiiiiiiii'', creation_timestamp = 10,
     last_email_sent_date = None, last_email_sent_timestamp = None,
     contact = [],
     reverse_alias = '' <ra+aaaaaaaaaaaaaaaaaaaaaaaaa@sl.local>''\<rparr>"

section \<open>Properties\<close>

subsection \<open>Classification of activities\<close>

lemma activities_loop_map: "activities_loop logs acc = acc @ map activity_of logs"
  by (induction logs arbitrary: acc) simp_all

lemma py_or_spec_correspondent:
  "py_or (l_website_from l) (l_website_email l) = spec_correspondent l"
  by (auto simp: py_or_def spec_correspondent_def split: option.splits)

lemma activity_of_spec: "activity_of l = spec_activity l"
  by (cases "is_reply l"; cases "bounced l"; cases "blocked l")
     (auto simp: activity_of_def spec_activity_def py_or_spec_correspondent Let_def fun_upd_twist)

lemma spec_action_cases: "spec_action r b k \<in> {''forward'', ''reply'', ''block'', ''bounced''}"
  by (cases r; cases b; cases k) simp_all

text \<open>
  Claim C2. The loop of \<^verbatim>\<open>get_alias_activities\<close> gives every log entry the
  activity of the specification's table, in the order of the entries: the action is
  \<open>reply\<close> when \<open>is_reply\<close> is set, with \<open>from\<close> the alias and \<open>to\<close> the
  correspondent (raw-from, else email); otherwise \<open>from\<close> and \<open>to\<close> are swapped and
  the action is \<open>bounced\<close> when \<open>bounced\<close> is set, else \<open>block\<close> when \<open>blocked\<close> is
  set, else \<open>forward\<close>. Every activity has exactly the keys \<open>timestamp\<close>, \<open>from\<close>,
  \<open>to\<close> and \<open>action\<close>, its action is one of the four, and an entry that is not a
  reply and is both bounced and blocked is classified \<open>bounced\<close>.
\<close>

theorem activities_classification:
  "activity_of l = spec_activity l
   \<and> activities_loop logs [] = map spec_activity logs
   \<and> dom (activity_of l) = {''timestamp'', ''from'', ''to'', ''action''}
   \<and> activity_of l ''action''
       \<in> {Some (JString ''forward''), Some (JString ''reply''),
          Some (JString ''block''), Some (JString ''bounced'')}
   \<and> activity_of (l\<lparr>is_reply := False, bounced := True, blocked := True\<rparr>) ''action''
       = Some (JString ''bounced'')"
proof -
  have a: "activity_of l = spec_activity l"
    by (rule activity_of_spec)
  have b: "activities_loop logs [] = map spec_activity logs"
    by (simp add: activities_loop_map activity_of_spec)
  have c: "dom (activity_of l) = {''timestamp'', ''from'', ''to'', ''action''}"
    unfolding a by (auto simp: spec_activity_def)
  have d: "activity_of l ''action''
       \<in> {Some (JString ''forward''), Some (JString ''reply''),
          Some (JString ''block''), Some (JString ''bounced'')}"
    unfolding a using spec_action_cases[of "is_reply l" "bounced l" "blocked l"]
    by (simp add: spec_activity_def)
  have e: "activity_of (l\<lparr>is_reply := False, bounced := True, blocked := True\<rparr>) ''action''
       = Some (JString ''bounced'')"
    by (simp add: activity_of_def)
  from a b c d e show ?thesis by blast
qed

theorem activities_classification_witness:
  "activity_of log_bounced_blocked ''action'' = Some (JString ''bounced'')
   \<and> map (\<lambda>a. a ''action'') (activities_loop [log_forward, log_bounced_blocked, log_reply] [])
       = [Some (JString ''forward''), Some (JString ''bounced''), Some (JString ''reply'')]"
  using activities_classification[of log_bounced_blocked "[log_forward, log_bounced_blocked, log_reply]"]
  by (simp add: log_bounced_blocked_def log_forward_def log_reply_def spec_activity_def)

subsection \<open>Validation, lookup and ownership\<close>

lemma Alias_get_absent:
  "aid \<notin> set (map a_id (aliases st)) \<Longrightarrow> Alias_get st aid = Inl NotFound"
  by (auto simp: Alias_get_def find_None_iff split: option.splits)

lemma Alias_get_Inr:
  "Alias_get st aid = Inr alias \<Longrightarrow> a_id alias = aid \<and> alias \<in> set (aliases st)"
  by (auto simp: Alias_get_def find_Some_iff split: option.splits)

text \<open>
  Claim C10. In \<^verbatim>\<open>update_alias\<close> and \<^verbatim>\<open>create_contact_route\<close> the test of the
  body comes first: a request whose body is empty (\<^verbatim>\<open>not data\<close>) gets the 400
  response whoever the user is and whatever the store holds, also when the user does
  not own the alias or the alias does not exist, and the store is unchanged.
\<close>

theorem empty_body_precedes_ownership:
  "\<not> py_truthy data \<Longrightarrow>
     update_alias st uid aid data = (Inr (P_error ''request body cannot be empty'', 400), st)
   \<and> create_contact_route E rnd now st uid aid data
       = (Inr (P_error ''request body cannot be empty'', 400), st)"
  by (simp add: update_alias_def create_contact_route_def)

theorem empty_body_precedes_ownership_witness:
  "\<not> py_truthy (JObject []) \<and> Alias_get store0 1 = Inr alias1 \<and> a_user_id alias1 \<noteq> 2
   \<and> update_alias store0 2 1 (JObject [])
       = (Inr (P_error ''request body cannot be empty'', 400), store0)
   \<and> create_contact_route env0 rnd0 10 store0 2 1 (JObject [])
       = (Inr (P_error ''request body cannot be empty'', 400), store0)"
  using empty_body_precedes_ownership[of "JObject []" store0 2 1 env0 rnd0 10]
  by (simp add: Alias_get_def store0_def alias1_def)

text \<open>
  Claim C7, as amended. A user who does not own the alias gets Forbidden (403) from
  delete and toggle, from update note and create contact when the body is not empty, and
  from list activities and list contacts when \<open>page_id\<close> is an integer; a request that
  fails the handler's validation gets the 400 response of the validation instead. In
  every case the store is unchanged.
\<close>

theorem ownership_gate:
  "Alias_get st aid = Inr alias \<Longrightarrow> a_user_id alias \<noteq> uid \<Longrightarrow>
     delete_alias st uid aid = (Inr (P_error ''Forbidden'', 403), st)
   \<and> toggle_alias st uid aid = (Inr (P_error ''Forbidden'', 403), st)
   \<and> update_alias st uid aid data
       = (if py_truthy data then Inr (P_error ''Forbidden'', 403)
          else Inr (P_error ''request body cannot be empty'', 400), st)
   \<and> create_contact_route E rnd now st uid aid data
       = (if py_truthy data then Inr (P_error ''Forbidden'', 403)
          else Inr (P_error ''request body cannot be empty'', 400), st)
   \<and> get_alias_activities E st uid aid arg
       = (if parse_page_id E arg = None
          then Inr (P_error ''page_id must be provided in request query'', 400)
          else Inr (P_error ''Forbidden'', 403), st)
   \<and> get_alias_contacts_route E st uid aid arg
       = (if parse_page_id E arg = None
          then Inr (P_error ''page_id must be provided in request query'', 400)
          else Inr (P_error ''Forbidden'', 403), st)"
  by (auto simp: delete_alias_def toggle_alias_def update_alias_def create_contact_route_def
      get_alias_activities_def get_alias_contacts_route_def split: option.splits)

theorem ownership_gate_witness:
  "Alias_get store1 1 = Inr alias1 \<and> a_user_id alias1 \<noteq> 2
   \<and> delete_alias store1 2 1 = (Inr (P_error ''Forbidden'', 403), store1)
   \<and> toggle_alias store1 2 1 = (Inr (P_error ''Forbidden'', 403), store1)
   \<and> update_alias store1 2 1 (JObject [(''note'', Some ''vip'')])
       = (Inr (P_error ''Forbidden'', 403), store1)
   \<and> create_contact_route env0 rnd0 10 store1 2 1 (JObject [(''contact'', Some ''Bob <bob@x.com>'')])
       = (Inr (P_error ''Forbidden'', 403), store1)
   \<and> get_alias_activities env0 store1 2 1 (Some ''0'') = (Inr (P_error ''Forbidden'', 403), store1)
   \<and> get_alias_contacts_route env0 store1 2 1 (Some ''0'') = (Inr (P_error ''Forbidden'', 403), store1)"
proof -
  have g: "Alias_get store1 1 = Inr alias1"
    by (simp add: Alias_get_def store1_def alias1_def)
  have u: "a_user_id alias1 \<noteq> 2"
    by (simp add: alias1_def)
  have p: "parse_page_id env0 (Some ''0'') = Some 0"
    by (simp add: parse_page_id_def env0_def decimal_def)
  show ?thesis
    using ownership_gate[OF g u, of "JObject [(''note'', Some ''vip'')]" env0 rnd0 10 "Some ''0''"]
      ownership_gate[OF g u, of "JObject [(''contact'', Some ''Bob <bob@x.com>'')]" env0 rnd0 10 "Some ''0''"]
      g u p
    by simp
qed

text \<open>
  The claim as it was stated fails: user 2 does not own alias 1, and the update of its
  note with no body is answered 400, not 403.
\<close>

theorem ownership_gate_counterexample:
  "Alias_get store1 1 = Inr alias1 \<and> a_user_id alias1 \<noteq> 2
   \<and> update_alias store1 2 1 JNone
       = (Inr (P_error ''request body cannot be empty'', 400), store1)
   \<and> fst (update_alias store1 2 1 JNone) \<noteq> Inr (P_error ''Forbidden'', 403)"
  by (simp add: Alias_get_def store1_def alias1_def update_alias_def)

text \<open>
  Claim C5, as amended. When no alias has the id, the lookup fails with NotFound and
  that is the result of delete and toggle, of update note and create contact when the
  body is not empty, and of list activities and list contacts when \<open>page_id\<close> is an
  integer; a request that fails the handler's validation gets the 400 response of the
  validation before any lookup. In every case the store is unchanged.
\<close>

theorem missing_alias_not_found:
  "aid \<notin> set (map a_id (aliases st)) \<Longrightarrow>
     delete_alias st uid aid = (Inl NotFound, st)
   \<and> toggle_alias st uid aid = (Inl NotFound, st)
   \<and> update_alias st uid aid data
       = (if py_truthy data then Inl NotFound
          else Inr (P_error ''request body cannot be empty'', 400), st)
   \<and> create_contact_route E rnd now st uid aid data
       = (if py_truthy data then Inl NotFound
          else Inr (P_error ''request body cannot be empty'', 400), st)
   \<and> get_alias_activities E st uid aid arg
       = (if parse_page_id E arg = None
          then Inr (P_error ''page_id must be provided in request query'', 400)
          else Inl NotFound, st)
   \<and> get_alias_contacts_route E st uid aid arg
       = (if parse_page_id E arg = None
          then Inr (P_error ''page_id must be provided in request query'', 400)
          else Inl NotFound, st)"
  using Alias_get_absent[of aid st]
  by (auto simp: delete_alias_def toggle_alias_def update_alias_def create_contact_route_def
      get_alias_activities_def get_alias_contacts_route_def split: option.splits)

theorem missing_alias_not_found_witness:
  "7 \<notin> set (map a_id (aliases store1))
   \<and> delete_alias store1 1 7 = (Inl NotFound, store1)
   \<and> toggle_alias store1 1 7 = (Inl NotFound, store1)
   \<and> update_alias store1 1 7 (JObject [(''note'', Some ''vip'')]) = (Inl NotFound, store1)
   \<and> create_contact_route env0 rnd0 10 store1 1 7 (JObject [(''contact'', Some ''Bob <bob@x.com>'')])
       = (Inl NotFound, store1)
   \<and> get_alias_activities env0 store1 1 7 (Some ''0'') = (Inl NotFound, store1)
   \<and> get_alias_contacts_route env0 store1 1 7 (Some ''0'') = (Inl NotFound, store1)"
proof -
  have a: "7 \<notin> set (map a_id (aliases store1))"
    by (simp add: store1_def alias1_def alias2_def)
  have p: "parse_page_id env0 (Some ''0'') = Some 0"
    by (simp add: parse_page_id_def env0_def decimal_def)
  show ?thesis
    using missing_alias_not_found[OF a, of 1 "JObject [(''note'', Some ''vip'')]" env0 rnd0 10 "Some ''0''"]
      missing_alias_not_found[OF a, of 1 "JObject [(''contact'', Some ''Bob <bob@x.com>'')]" env0 rnd0 10 "Some ''0''"]
      a p
    by simp
qed

text \<open>
  The claim as it was stated fails: no alias has the id 7, and the update of its note
  with no body is answered 400, neither NotFound nor Forbidden.
\<close>

theorem missing_alias_not_found_counterexample:
  "7 \<notin> set (map a_id (aliases store1))
   \<and> update_alias store1 1 7 JNone
       = (Inr (P_error ''request body cannot be empty'', 400), store1)
   \<and> fst (update_alias store1 1 7 JNone) \<noteq> Inl NotFound
   \<and> fst (update_alias store1 1 7 JNone) \<noteq> Inr (P_error ''Forbidden'', 403)"
  by (simp add: store1_def alias1_def alias2_def update_alias_def)

subsection \<open>The identity generator\<close>

lemma candidate_spec: "candidate E rnd (25 * k) = (spec_candidate E rnd k, 25 * (k + 1))"
  by (simp add: candidate_def random_string_def spec_candidate_def spec_token_def)

lemma get_by_reply_email_None: "(Contact_get_by_reply_email st r = None) = (\<not> taken st r)"
  by (auto simp: Contact_get_by_reply_email_def taken_def find_None_iff)

lemma loop_first_free:
  "k \<le> j \<Longrightarrow> j < k + n \<Longrightarrow> (\<forall>i. k \<le> i \<and> i < j \<longrightarrow> taken st (spec_candidate E rnd i)) \<Longrightarrow>
   \<not> taken st (spec_candidate E rnd j) \<Longrightarrow>
   reply_email_loop E rnd st n reply (25 * k) = (spec_candidate E rnd j, 25 * (j + 1))"
proof (induction n arbitrary: k reply)
  case 0
  then show ?case by simp
next
  case (Suc n)
  show ?case
  proof (cases "k = j")
    case True
    with Suc.prems show ?thesis
      by (simp add: candidate_spec get_by_reply_email_None)
  next
    case False
    with Suc.prems have t: "taken st (spec_candidate E rnd k)" and kj: "Suc k \<le> j" "j < Suc k + n"
      by auto
    have all: "\<forall>i. Suc k \<le> i \<and> i < j \<longrightarrow> taken st (spec_candidate E rnd i)"
      using Suc.prems(3) by auto
    have "reply_email_loop E rnd st n (spec_candidate E rnd k) (25 * Suc k)
        = (spec_candidate E rnd j, 25 * (j + 1))"
      by (rule Suc.IH[OF kj all Suc.prems(4)])
    with t show ?thesis
      by (simp add: candidate_spec get_by_reply_email_None)
  qed
qed

lemma loop_all_taken:
  "(\<forall>i. k \<le> i \<and> i < k + n \<longrightarrow> taken st (spec_candidate E rnd i)) \<Longrightarrow> 0 < n \<Longrightarrow>
   reply_email_loop E rnd st n reply (25 * k) = (spec_candidate E rnd (k + n - 1), 25 * (k + n))"
proof (induction n arbitrary: k reply)
  case 0
  then show ?case by simp
next
  case (Suc n)
  have t: "taken st (spec_candidate E rnd k)"
    using Suc.prems(1) by simp
  show ?case
  proof (cases n)
    case 0
    with t show ?thesis
      by (simp add: candidate_spec get_by_reply_email_None)
  next
    case (Suc m)
    have all: "\<forall>i. Suc k \<le> i \<and> i < Suc k + n \<longrightarrow> taken st (spec_candidate E rnd i)"
      using Suc.prems(1) by auto
    have "reply_email_loop E rnd st n (spec_candidate E rnd k) (25 * Suc k)
        = (spec_candidate E rnd (Suc k + n - 1), 25 * (Suc k + n))"
      by (rule Suc.IH[OF all]) (simp add: Suc)
    with t show ?thesis
      by (simp add: candidate_spec get_by_reply_email_None)
  qed
qed

lemma generate_first_free:
  assumes "1 \<le> j" "j \<le> 1000"
    and "\<forall>i. 1 \<le> i \<and> i < j \<longrightarrow> taken st (spec_candidate E rnd i)"
    and "\<not> taken st (spec_candidate E rnd j)"
  shows "generate_reply_email E rnd st = (spec_candidate E rnd j, 25 * (j + 1))"
proof -
  have c0: "candidate E rnd 0 = (spec_candidate E rnd 0, 25 * 1)"
    using candidate_spec[of E rnd 0] by simp
  have "reply_email_loop E rnd st 1000 (spec_candidate E rnd 0) (25 * 1)
      = (spec_candidate E rnd j, 25 * (j + 1))"
    using assms by (intro loop_first_free) auto
  with c0 show ?thesis
    by (simp add: generate_reply_email_def)
qed

lemma generate_all_taken:
  assumes "\<forall>i. 1 \<le> i \<and> i \<le> 1000 \<longrightarrow> taken st (spec_candidate E rnd i)"
  shows "generate_reply_email E rnd st = (spec_candidate E rnd 1000, 25 * 1001)"
proof -
  have c0: "candidate E rnd 0 = (spec_candidate E rnd 0, 25 * 1)"
    using candidate_spec[of E rnd 0] by simp
  have "reply_email_loop E rnd st 1000 (spec_candidate E rnd 0) (25 * 1)
      = (spec_candidate E rnd (1 + 1000 - 1), 25 * (1 + 1000))"
    using assms by (intro loop_all_taken) auto
  with c0 show ?thesis
    by (simp add: generate_reply_email_def)
qed

lemma generate_cases:
  "\<exists>k. 1 \<le> k \<and> k \<le> 1000
     \<and> generate_reply_email E rnd st = (spec_candidate E rnd k, 25 * (k + 1))
     \<and> (\<forall>i. 1 \<le> i \<and> i < k \<longrightarrow> taken st (spec_candidate E rnd i))
     \<and> (taken st (spec_candidate E rnd k) \<longrightarrow> k = 1000)"
proof (cases "\<exists>j. 1 \<le> j \<and> j \<le> 1000 \<and> \<not> taken st (spec_candidate E rnd j)")
  case True
  define j where "j = (LEAST j. 1 \<le> j \<and> j \<le> 1000 \<and> \<not> taken st (spec_candidate E rnd j))"
  have j: "1 \<le> j \<and> j \<le> 1000 \<and> \<not> taken st (spec_candidate E rnd j)"
    unfolding j_def using True by (rule LeastI_ex)
  have least: "\<forall>i. 1 \<le> i \<and> i < j \<longrightarrow> taken st (spec_candidate E rnd i)"
  proof (intro allI impI)
    fix i assume i: "1 \<le> i \<and> i < j"
    show "taken st (spec_candidate E rnd i)"
    proof (rule ccontr)
      assume "\<not> taken st (spec_candidate E rnd i)"
      with i j have "1 \<le> i \<and> i \<le> 1000 \<and> \<not> taken st (spec_candidate E rnd i)" by simp
      then have "j \<le> i" unfolding j_def by (rule Least_le)
      with i show False by simp
    qed
  qed
  from j least have "generate_reply_email E rnd st = (spec_candidate E rnd j, 25 * (j + 1))"
    by (intro generate_first_free) auto
  with j least show ?thesis by blast
next
  case False
  then have all: "\<forall>i. 1 \<le> i \<and> i \<le> 1000 \<longrightarrow> taken st (spec_candidate E rnd i)" by blast
  then have "generate_reply_email E rnd st = (spec_candidate E rnd 1000, 25 * (1000 + 1))"
    using generate_all_taken[of st E rnd] by simp
  with all show ?thesis
    by (intro exI[of _ 1000]) simp
qed

lemma spec_candidate_rnd0: "spec_candidate env0 rnd0 k = ''ra+aaaaaaaaaaaaaaaaaaaaaaaaa@sl.local''"
proof -
  have "spec_token rnd0 k = replicate 25 (CHR ''a'')"
    by (simp add: spec_token_def rnd0_def map_replicate_const)
  also have "\<dots> = ''aaaaaaaaaaaaaaaaaaaaaaaaa''"
    by (simp add: numeral_eq_Suc)
  finally show ?thesis
    by (simp add: spec_candidate_def env0_def)
qed

text \<open>
  Claim C4. The generator's candidates have the form \<open>ra+\<close>, a token of 25 random
  characters, \<open>@\<close>, domain, with a new token for every attempt. The loop makes at most
  1000 attempts, each with one lookup of the candidate among the contacts. When attempt
  \<open>j\<close> is the first whose candidate no contact has, the result is that candidate and
  the generator has drawn \<open>j + 1\<close> tokens (the one before the loop and one per
  attempt); when the candidates of all 1000 attempts are taken, the result is the
  candidate of the last attempt. The result is always the candidate of one of the
  attempts 1 to 1000. The generator returns no store: it only reads.
\<close>

theorem identity_generator:
  "(1 \<le> j \<and> j \<le> 1000 \<and> (\<forall>i. 1 \<le> i \<and> i < j \<longrightarrow> taken st (spec_candidate E rnd i))
      \<and> \<not> taken st (spec_candidate E rnd j)
     \<longrightarrow> generate_reply_email E rnd st = (spec_candidate E rnd j, 25 * (j + 1)))
   \<and> ((\<forall>i. 1 \<le> i \<and> i \<le> 1000 \<longrightarrow> taken st (spec_candidate E rnd i))
     \<longrightarrow> generate_reply_email E rnd st = (spec_candidate E rnd 1000, 25 * 1001))
   \<and> (\<exists>k. 1 \<le> k \<and> k \<le> 1000
         \<and> generate_reply_email E rnd st = (spec_candidate E rnd k, 25 * (k + 1)))
   \<and> spec_candidate E rnd j = ''ra+'' @ spec_token rnd j @ ''@'' @ EMAIL_DOMAIN E
   \<and> length (spec_token rnd j) = 25"
proof -
  have a: "1 \<le> j \<and> j \<le> 1000 \<and> (\<forall>i. 1 \<le> i \<and> i < j \<longrightarrow> taken st (spec_candidate E rnd i))
      \<and> \<not> taken st (spec_candidate E rnd j)
     \<longrightarrow> generate_reply_email E rnd st = (spec_candidate E rnd j, 25 * (j + 1))"
    using generate_first_free[of j st E rnd] by blast
  have b: "(\<forall>i. 1 \<le> i \<and> i \<le> 1000 \<longrightarrow> taken st (spec_candidate E rnd i))
     \<longrightarrow> generate_reply_email E rnd st = (spec_candidate E rnd 1000, 25 * 1001)"
    using generate_all_taken[of st E rnd] by blast
  have c: "\<exists>k. 1 \<le> k \<and> k \<le> 1000
         \<and> generate_reply_email E rnd st = (spec_candidate E rnd k, 25 * (k + 1))"
    using generate_cases[of E rnd st] by blast
  have d: "spec_candidate E rnd j = ''ra+'' @ spec_token rnd j @ ''@'' @ EMAIL_DOMAIN E"
    by (simp add: spec_candidate_def)
  have e: "length (spec_token rnd j) = 25"
    by (simp add: spec_token_def)
  from a b c d e show ?thesis by blast
qed

theorem identity_generator_witness:
  "generate_reply_email env0 rnd0 store0 = (''ra+aaaaaaaaaaaaaaaaaaaaaaaaa@sl.local'', 50)
   \<and> generate_reply_email env0 rnd0 store1 = (''ra+aaaaaaaaaaaaaaaaaaaaaaaaa@sl.local'', 25025)"
proof -
  have free: "\<not> taken store0 (spec_candidate env0 rnd0 1)"
    by (simp add: taken_def store0_def)
  have full: "\<forall>i. 1 \<le> i \<and> i \<le> 1000 \<longrightarrow> taken store1 (spec_candidate env0 rnd0 i)"
    by (simp add: spec_candidate_rnd0 taken_def store1_def alice_def)
  from free have "generate_reply_email env0 rnd0 store0 = (spec_candidate env0 rnd0 1, 25 * (1 + 1))"
    using identity_generator[of 1 store0 env0 rnd0] by simp
  moreover from full have "generate_reply_email env0 rnd0 store1 = (spec_candidate env0 rnd0 1000, 25 * 1001)"
    using identity_generator[of 1 store1 env0 rnd0] by blast
  ultimately show ?thesis
    by (simp add: spec_candidate_rnd0)
qed

subsection \<open>Creating contacts\<close>

lemma create_contact_201D:
  assumes "create_contact_route E rnd now st uid aid data = (Inr (P_contact j, 201), st')"
  shows "\<exists>alias raw c. py_truthy data \<and> Alias_get st aid = Inr alias \<and> a_user_id alias = uid
     \<and> data_get data ''contact'' = Inr raw
     \<and> Contact_get_by_website_email st aid (snd (parseaddr E raw)) = None
     \<and> \<not> taken st (fst (generate_reply_email E rnd st))
     \<and> c = \<lparr>c_id = contact_seq st, gen_email_id = aid, website_from = raw,
              website_email = snd (parseaddr E raw),
              reply_email = fst (generate_reply_email E rnd st), c_created_at = now\<rparr>
     \<and> st' = st\<lparr>contacts := contacts st @ [c], contact_seq := Suc (contact_seq st)\<rparr>
     \<and> j = serialize_contact E st' c"
proof -
  from assms have t: "py_truthy data"
    by (auto simp: create_contact_route_def split: if_splits)
  from assms t obtain al where g: "Alias_get st aid = Inr al"
    by (cases "Alias_get st aid") (auto simp: create_contact_route_def)
  then have aid: "a_id al = aid"
    using Alias_get_Inr by blast
  from assms t g have u: "a_user_id al = uid"
    by (auto simp: create_contact_route_def split: if_splits)
  from assms t g u obtain raw where d: "data_get data ''contact'' = Inr raw"
    by (cases "data_get data ''contact''") (auto simp: create_contact_route_def)
  from assms t g u d aid show ?thesis
    by (auto simp: create_contact_route_def Contact_create_def taken_def Let_def
        split: if_splits)
qed

lemma create_contact_201I:
  assumes "py_truthy data" "Alias_get st aid = Inr alias" "a_user_id alias = uid"
    and "data_get data ''contact'' = Inr raw"
    and "Contact_get_by_website_email st aid (snd (parseaddr E raw)) = None"
    and "\<not> taken st (fst (generate_reply_email E rnd st))"
    and "c = \<lparr>c_id = contact_seq st, gen_email_id = aid, website_from = raw,
              website_email = snd (parseaddr E raw),
              reply_email = fst (generate_reply_email E rnd st), c_created_at = now\<rparr>"
    and "st' = st\<lparr>contacts := contacts st @ [c], contact_seq := Suc (contact_seq st)\<rparr>"
  shows "create_contact_route E rnd now st uid aid data
     = (Inr (P_contact (serialize_contact E st' c), 201), st')"
proof -
  have aid: "a_id alias = aid"
    using assms(2) Alias_get_Inr by blast
  with assms show ?thesis
    by (simp add: create_contact_route_def Contact_create_def taken_def Let_def)
qed

lemma create_contact_409I:
  assumes "py_truthy data" "Alias_get st aid = Inr alias" "a_user_id alias = uid"
    and "data_get data ''contact'' = Inr raw"
    and "Contact_get_by_website_email st aid (snd (parseaddr E raw)) \<noteq> None"
  shows "create_contact_route E rnd now st uid aid data
     = (Inr (P_error ''Contact already added'', 409), st)"
proof -
  have aid: "a_id alias = aid"
    using assms(2) Alias_get_Inr by blast
  with assms show ?thesis
    by (simp add: create_contact_route_def Let_def)
qed

lemma create_contact_contacts:
  "contacts (snd (create_contact_route E rnd now st uid aid data)) = contacts st
   \<or> (\<exists>c. contacts (snd (create_contact_route E rnd now st uid aid data)) = contacts st @ [c]
        \<and> reply_email c \<notin> set (map reply_email (contacts st)))"
  by (auto simp: create_contact_route_def Contact_create_def Let_def
      split: sum.splits if_splits)

lemma handle_distinct:
  assumes "distinct (map reply_email (contacts st))"
  shows "distinct (map reply_email (contacts (snd (handle E st r))))"
proof (cases r)
  case (DeleteAlias uid aid)
  with assms show ?thesis
    by (auto simp: delete_alias_def Alias_delete_def Let_def distinct_map_filter split: sum.splits)
next
  case (ToggleAlias uid aid)
  with assms show ?thesis
    by (auto simp: toggle_alias_def Alias_put_def Let_def split: sum.splits)
next
  case (GetActivities uid aid arg)
  with assms show ?thesis
    by (auto simp: get_alias_activities_def split: sum.splits option.splits)
next
  case (UpdateAlias uid aid data)
  with assms show ?thesis
    by (auto simp: update_alias_def Alias_put_def split: sum.splits)
next
  case (GetContacts uid aid arg)
  with assms show ?thesis
    by (auto simp: get_alias_contacts_route_def split: sum.splits option.splits)
next
  case (CreateContact rnd now uid aid data)
  with assms create_contact_contacts[of E rnd now st uid aid data] show ?thesis
    by auto
qed

lemma run_distinct:
  "distinct (map reply_email (contacts st)) \<Longrightarrow> distinct (map reply_email (contacts (run E st rs)))"
  by (induction rs arbitrary: st) (simp_all add: handle_distinct)

lemma spec_candidate_rnd1: "spec_candidate env0 rnd1 k = ''ra+eeeeeeeeeeeeeeeeeeeeeeeee@sl.local''"
proof -
  have "spec_token rnd1 k = replicate 25 (CHR ''e'')"
    by (simp add: spec_token_def rnd1_def map_replicate_const)
  also have "\<dots> = ''eeeeeeeeeeeeeeeeeeeeeeeee''"
    by (simp add: numeral_eq_Suc)
  finally show ?thesis
    by (simp add: spec_candidate_def env0_def)
qed

lemma generate_rnd0:
  "fst (generate_reply_email env0 rnd0 st) = ''ra+aaaaaaaaaaaaaaaaaaaaaaaaa@sl.local''"
  using generate_cases[of env0 rnd0 st] by (auto simp: spec_candidate_rnd0)

lemma generate_rnd1:
  "fst (generate_reply_email env0 rnd1 st) = ''ra+eeeeeeeeeeeeeeeeeeeeeeeee@sl.local''"
  using generate_cases[of env0 rnd1 st] by (auto simp: spec_candidate_rnd1)

lemma parse_bob: "parseaddr env0 (Some ''Bob <bob@x.com>'') = (''Bob'', ''bob@x.com'')"
  by (simp add: parseaddr_def env0_def angle_addr_def)

lemma parse_bare_bob: "parseaddr env0 (Some ''bob@x.com'') = ([], ''bob@x.com'')"
  by (simp add: parseaddr_def env0_def angle_addr_def)

lemma parse_eve: "parseaddr env0 (Some ''eve@x.com'') = ([], ''eve@x.com'')"
  by (simp add: parseaddr_def env0_def angle_addr_def)

lemma parse_dan: "parseaddr env0 (Some ''dan@x.com'') = ([], ''dan@x.com'')"
  by (simp add: parseaddr_def env0_def angle_addr_def)

lemmas eval_create = create_contact_route_def Alias_get_def Contact_get_by_website_email_def
  Contact_create_def generate_rnd0 generate_rnd1 parse_bob parse_bare_bob parse_eve parse_dan
  alias1_def alias2_def Let_def

lemma run_example:
  "map reply_email (contacts (run env0 store0
           [CreateContact rnd0 10 1 1 (JObject [(''contact'', Some ''Bob <bob@x.com>'')]),
            CreateContact rnd0 11 1 1 (JObject [(''contact'', Some ''dan@x.com'')]),
            CreateContact rnd1 12 1 1 (JObject [(''contact'', Some ''eve@x.com'')])]))
   = [''ra+aaaaaaaaaaaaaaaaaaaaaaaaa@sl.local'', ''ra+eeeeeeeeeeeeeeeeeeeeeeeee@sl.local'']"
  by (simp add: eval_create store0_def)

lemma env0_format_10: "arrow_format env0 10 = ''iiiiiiiiii''"
  by (simp add: env0_def numeral_eq_Suc)

lemma env0_display_name:
  "display_name env0 c = fst (angle_addr (py_or (website_from c) (website_email c)))"
  by (simp add: env0_def)

lemma create_bob:
  "create_contact_route env0 rnd0 10 store0 1 1 bob_body = (Inr (P_contact bob_json, 201), store_bob)"
  by (simp add: eval_create store0_def bob_body_def store_bob_def bob_json_def bob_def
      serialize_contact_def last_reply_def website_send_to_def env0_format_10 env0_display_name
      py_or_def angle_addr_def)

lemma create_bob_again:
  "create_contact_route env0 rnd1 11 store_bob 1 1 (JObject [(''contact'', Some ''bob@x.com'')])
    = (Inr (P_error ''Contact already added'', 409), store_bob)"
  by (simp add: eval_create store_bob_def bob_def)

lemma create_blank:
  "create_contact_route env0 rnd0 10 store0 1 1 blank_body
    = (Inr (P_contact blank_json, 201), store_blank)"
  by (simp add: eval_create store0_def blank_body_def blank_def parseaddr_def store_blank_def
      blank_json_def serialize_contact_def last_reply_def website_send_to_def env0_format_10
      env0_display_name py_or_def angle_addr_def)

text \<open>
  Claim C1. The reply addresses of the contacts stay pairwise distinct: when no two
  contacts of the store have the same reply address, no two have after any sequence of
  requests to the handlers, so any two different rows of the contact table differ in
  their reply address. A create-contact request that succeeds (201) appends one
  contact whose reply address is the generated one, and no contact of the store had
  it. The generator's loop does not secure this by itself (after 1000 collisions its
  result is a taken address); the table's uniqueness constraint then refuses the row.
\<close>

theorem reply_email_unique:
  "distinct (map reply_email (contacts st)) \<Longrightarrow>
     distinct (map reply_email (contacts (run E st rs)))
   \<and> (\<forall>i k. i < k \<and> k < length (contacts (run E st rs)) \<longrightarrow>
          reply_email (contacts (run E st rs) ! i) \<noteq> reply_email (contacts (run E st rs) ! k))
   \<and> (create_contact_route E rnd now st uid aid data = (Inr (P_contact j, 201), st') \<longrightarrow>
        (\<exists>c. contacts st' = contacts st @ [c]
           \<and> reply_email c = fst (generate_reply_email E rnd st)
           \<and> reply_email c \<notin> set (map reply_email (contacts st)))
        \<and> distinct (map reply_email (contacts st')))"
proof -
  assume d: "distinct (map reply_email (contacts st))"
  then have a: "distinct (map reply_email (contacts (run E st rs)))"
    by (rule run_distinct)
  have b: "\<forall>i k. i < k \<and> k < length (contacts (run E st rs)) \<longrightarrow>
          reply_email (contacts (run E st rs) ! i) \<noteq> reply_email (contacts (run E st rs) ! k)"
  proof (intro allI impI)
    fix i k
    assume ik: "i < k \<and> k < length (contacts (run E st rs))"
    then have li: "i < length (map reply_email (contacts (run E st rs)))"
      and lk: "k < length (map reply_email (contacts (run E st rs)))"
      by simp_all
    from ik nth_eq_iff_index_eq[OF a li lk]
    have "map reply_email (contacts (run E st rs)) ! i
        \<noteq> map reply_email (contacts (run E st rs)) ! k"
      by blast
    with ik show "reply_email (contacts (run E st rs) ! i)
        \<noteq> reply_email (contacts (run E st rs) ! k)"
      by simp
  qed
  have c: "create_contact_route E rnd now st uid aid data = (Inr (P_contact j, 201), st') \<longrightarrow>
        (\<exists>c. contacts st' = contacts st @ [c]
           \<and> reply_email c = fst (generate_reply_email E rnd st)
           \<and> reply_email c \<notin> set (map reply_email (contacts st)))
        \<and> distinct (map reply_email (contacts st'))"
  proof
    assume cr: "create_contact_route E rnd now st uid aid data = (Inr (P_contact j, 201), st')"
    from create_contact_201D[OF cr]
    have new: "\<exists>c. contacts st' = contacts st @ [c]
           \<and> reply_email c = fst (generate_reply_email E rnd st)
           \<and> reply_email c \<notin> set (map reply_email (contacts st))"
      by (auto simp: taken_def)
    with d have "distinct (map reply_email (contacts st'))"
      by auto
    with new show "(\<exists>c. contacts st' = contacts st @ [c]
           \<and> reply_email c = fst (generate_reply_email E rnd st)
           \<and> reply_email c \<notin> set (map reply_email (contacts st)))
        \<and> distinct (map reply_email (contacts st'))"
      by blast
  qed
  from a b c show ?thesis by blast
qed

theorem reply_email_unique_witness:
  "distinct (map reply_email (contacts store0))
   \<and> create_contact_route env0 rnd0 10 store0 1 1 bob_body = (Inr (P_contact bob_json, 201), store_bob)
   \<and> distinct (map reply_email (contacts store_bob))
   \<and> distinct (map reply_email (contacts (run env0 store0
        [CreateContact rnd0 10 1 1 (JObject [(''contact'', Some ''Bob <bob@x.com>'')]),
         CreateContact rnd0 11 1 1 (JObject [(''contact'', Some ''dan@x.com'')]),
         CreateContact rnd1 12 1 1 (JObject [(''contact'', Some ''eve@x.com'')])])))
   \<and> length (contacts (run env0 store0
        [CreateContact rnd0 10 1 1 (JObject [(''contact'', Some ''Bob <bob@x.com>'')]),
         CreateContact rnd0 11 1 1 (JObject [(''contact'', Some ''dan@x.com'')]),
         CreateContact rnd1 12 1 1 (JObject [(''contact'', Some ''eve@x.com'')])])) = 2"
proof -
  have d: "distinct (map reply_email (contacts store0))"
    by (simp add: store0_def)
  have n: "length (map reply_email (contacts (run env0 store0
        [CreateContact rnd0 10 1 1 (JObject [(''contact'', Some ''Bob <bob@x.com>'')]),
         CreateContact rnd0 11 1 1 (JObject [(''contact'', Some ''dan@x.com'')]),
         CreateContact rnd1 12 1 1 (JObject [(''contact'', Some ''eve@x.com'')])]))) = 2"
    unfolding run_example by simp
  from reply_email_unique[OF d, of env0
      "[CreateContact rnd0 10 1 1 (JObject [(''contact'', Some ''Bob <bob@x.com>'')]),
        CreateContact rnd0 11 1 1 (JObject [(''contact'', Some ''dan@x.com'')]),
        CreateContact rnd1 12 1 1 (JObject [(''contact'', Some ''eve@x.com'')])]"
      rnd0 10 1 1 bob_body bob_json store_bob] d create_bob n
  show ?thesis by simp
qed

text \<open>
  Claim C3. For the owner's request with a body that has a contact: when a contact
  with the alias's id and the parsed address exists, the handler answers 409 and the
  store is unchanged; when none exists and the generated reply address is free, the
  request succeeds and adds one contact, and a second request for the same alias whose
  contact parses to the same address, whatever its draws and time, answers 409 and
  leaves the store as the first request left it.
\<close>

theorem duplicate_contact_conflict:
  assumes "py_truthy data" and "Alias_get st aid = Inr owned" and "a_user_id owned = uid"
    and "data_get data ''contact'' = Inr raw"
  shows "((aid, snd (parseaddr E raw))
            \<in> set (map (\<lambda>c. (gen_email_id c, website_email c)) (contacts st))
          \<longrightarrow> create_contact_route E rnd now st uid aid data
              = (Inr (P_error ''Contact already added'', 409), st))
       \<and> ((aid, snd (parseaddr E raw))
            \<notin> set (map (\<lambda>c. (gen_email_id c, website_email c)) (contacts st))
          \<and> \<not> taken st (fst (generate_reply_email E rnd st))
          \<and> py_truthy data' \<and> data_get data' ''contact'' = Inr raw'
          \<and> snd (parseaddr E raw') = snd (parseaddr E raw)
          \<longrightarrow> (\<exists>j st'. create_contact_route E rnd now st uid aid data
                          = (Inr (P_contact j, 201), st')
                  \<and> length (contacts st') = Suc (length (contacts st))
                  \<and> create_contact_route E rnd' now' st' uid aid data'
                      = (Inr (P_error ''Contact already added'', 409), st')))"
proof (intro conjI impI)
  assume "(aid, snd (parseaddr E raw))
            \<in> set (map (\<lambda>c. (gen_email_id c, website_email c)) (contacts st))"
  then have "Contact_get_by_website_email st aid (snd (parseaddr E raw)) \<noteq> None"
    by (auto simp: Contact_get_by_website_email_def find_None_iff)
  with assms show "create_contact_route E rnd now st uid aid data
              = (Inr (P_error ''Contact already added'', 409), st)"
    by (intro create_contact_409I) auto
next
  assume h: "(aid, snd (parseaddr E raw))
            \<notin> set (map (\<lambda>c. (gen_email_id c, website_email c)) (contacts st))
          \<and> \<not> taken st (fst (generate_reply_email E rnd st))
          \<and> py_truthy data' \<and> data_get data' ''contact'' = Inr raw'
          \<and> snd (parseaddr E raw') = snd (parseaddr E raw)"
  define c where "c = \<lparr>c_id = contact_seq st, gen_email_id = aid, website_from = raw,
              website_email = snd (parseaddr E raw),
              reply_email = fst (generate_reply_email E rnd st), c_created_at = now\<rparr>"
  define st' where "st' = st\<lparr>contacts := contacts st @ [c], contact_seq := Suc (contact_seq st)\<rparr>"
  from h have none: "Contact_get_by_website_email st aid (snd (parseaddr E raw)) = None"
    by (force simp: Contact_get_by_website_email_def find_None_iff)
  have first: "create_contact_route E rnd now st uid aid data
      = (Inr (P_contact (serialize_contact E st' c), 201), st')"
    using assms none h c_def st'_def by (intro create_contact_201I) auto
  have g': "Alias_get st' aid = Inr owned"
    using assms(2) by (simp add: Alias_get_def st'_def)
  have some: "Contact_get_by_website_email st' aid (snd (parseaddr E raw')) \<noteq> None"
  proof -
    have "c \<in> set (contacts st') \<and> gen_email_id c = aid
        \<and> website_email c = snd (parseaddr E raw')"
      using h by (simp add: st'_def c_def)
    then show ?thesis
      by (auto simp: Contact_get_by_website_email_def find_None_iff)
  qed
  have second: "create_contact_route E rnd' now' st' uid aid data'
      = (Inr (P_error ''Contact already added'', 409), st')"
    using create_contact_409I[of data' st' aid owned uid raw' E rnd' now'] g' assms(3) h some
    by simp
  have len: "length (contacts st') = Suc (length (contacts st))"
    by (simp add: st'_def)
  from first second len
  show "\<exists>j st'. create_contact_route E rnd now st uid aid data = (Inr (P_contact j, 201), st')
                  \<and> length (contacts st') = Suc (length (contacts st))
                  \<and> create_contact_route E rnd' now' st' uid aid data'
                      = (Inr (P_error ''Contact already added'', 409), st')"
    by blast
qed

theorem duplicate_contact_conflict_witness:
  "py_truthy bob_body \<and> Alias_get store0 1 = Inr alias1 \<and> a_user_id alias1 = 1
   \<and> data_get bob_body ''contact'' = Inr (Some ''Bob <bob@x.com>'')
   \<and> create_contact_route env0 rnd0 10 store0 1 1 bob_body
       = (Inr (P_contact bob_json, 201), store_bob)
   \<and> create_contact_route env0 rnd1 11 store_bob 1 1 (JObject [(''contact'', Some ''bob@x.com'')])
       = (Inr (P_error ''Contact already added'', 409), store_bob)
   \<and> create_contact_route env0 rnd0 12 store_bob 1 1 bob_body
       = (Inr (P_error ''Contact already added'', 409), store_bob)"
proof -
  have t: "py_truthy bob_body"
    by (simp add: bob_body_def)
  have g: "Alias_get store0 1 = Inr alias1"
    by (simp add: Alias_get_def store0_def alias1_def)
  have g': "Alias_get store_bob 1 = Inr alias1"
    by (simp add: Alias_get_def store_bob_def alias1_def)
  have u: "a_user_id alias1 = 1"
    by (simp add: alias1_def)
  have d: "data_get bob_body ''contact'' = Inr (Some ''Bob <bob@x.com>'')"
    by (simp add: bob_body_def)
  have fresh: "(1, snd (parseaddr env0 (Some ''Bob <bob@x.com>'')))
      \<notin> set (map (\<lambda>c. (gen_email_id c, website_email c)) (contacts store0))"
    by (simp add: store0_def)
  have free: "\<not> taken store0 (fst (generate_reply_email env0 rnd0 store0))"
    by (simp add: taken_def store0_def)
  have t': "py_truthy (JObject [(''contact'', Some ''bob@x.com'')])"
    by simp
  have d': "data_get (JObject [(''contact'', Some ''bob@x.com'')]) ''contact'' = Inr (Some ''bob@x.com'')"
    by simp
  have same: "snd (parseaddr env0 (Some ''bob@x.com'')) = snd (parseaddr env0 (Some ''Bob <bob@x.com>''))"
    by (simp add: parse_bob parse_bare_bob)
  have dup: "(1, snd (parseaddr env0 (Some ''Bob <bob@x.com>'')))
      \<in> set (map (\<lambda>c. (gen_email_id c, website_email c)) (contacts store_bob))"
    by (simp add: store_bob_def bob_def parse_bob)
  from duplicate_contact_conflict[OF t g u d, of env0 rnd0 10
      "JObject [(''contact'', Some ''bob@x.com'')]" "Some ''bob@x.com''" rnd1 11]
    fresh free t' d' same
  obtain j st' where
    first: "create_contact_route env0 rnd0 10 store0 1 1 bob_body = (Inr (P_contact j, 201), st')"
    and second: "create_contact_route env0 rnd1 11 st' 1 1 (JObject [(''contact'', Some ''bob@x.com'')])
       = (Inr (P_error ''Contact already added'', 409), st')"
    by blast
  from first create_bob have st': "st' = store_bob" and j: "j = bob_json"
    by simp_all
  from duplicate_contact_conflict[OF t g' u d, of env0 rnd0 12] dup
  have third: "create_contact_route env0 rnd0 12 store_bob 1 1 bob_body
       = (Inr (P_error ''Contact already added'', 409), store_bob)"
    by blast
  from t g u d first second third st' j show ?thesis
    by simp
qed

lemma create_contact_stored:
  assumes "create_contact_route E rnd now st uid aid data = (Inr (P_contact j, 201), st')"
  shows "\<exists>raw c. data_get data ''contact'' = Inr raw \<and> contacts st' = contacts st @ [c]
     \<and> gen_email_id c = aid \<and> website_from c = raw
     \<and> website_email c = snd (parseaddr E raw)
     \<and> reply_email c = fst (generate_reply_email E rnd st)
     \<and> j = serialize_contact E st' c"
  using create_contact_201D[OF assms] by auto

text \<open>
  Claim C6, as amended. The contact that a successful create-contact request stores
  has, as \<open>website_email\<close>, the address part that \<^verbatim>\<open>parseaddr\<close> returns for the
  \<open>contact\<close> member of the body, whatever it is, and as \<open>website_from\<close> that member
  itself: the display name is dropped. The address is the empty string when the member
  is missing, null or the empty string.
\<close>

theorem website_email_parsed:
  "create_contact_route E rnd now st uid aid data = (Inr (P_contact j, 201), st') \<Longrightarrow>
     \<exists>raw c. data_get data ''contact'' = Inr raw \<and> contacts st' = contacts st @ [c]
       \<and> website_from c = raw
       \<and> website_email c = snd (parseaddr E raw)
       \<and> website_email c
           = (case raw of None \<Rightarrow> []
              | Some s \<Rightarrow> if s = [] then [] else snd (parse_field E s))"
proof -
  assume "create_contact_route E rnd now st uid aid data = (Inr (P_contact j, 201), st')"
  from create_contact_stored[OF this] obtain raw c where
    c: "data_get data ''contact'' = Inr raw" "contacts st' = contacts st @ [c]"
      "website_from c = raw" "website_email c = snd (parseaddr E raw)"
    by blast
  have "snd (parseaddr E raw)
      = (case raw of None \<Rightarrow> [] | Some s \<Rightarrow> if s = [] then [] else snd (parse_field E s))"
    by (simp add: parseaddr_def split: option.splits)
  with c show ?thesis by auto
qed

theorem website_email_parsed_witness:
  "create_contact_route env0 rnd0 10 store0 1 1 bob_body = (Inr (P_contact bob_json, 201), store_bob)
   \<and> data_get bob_body ''contact'' = Inr (Some ''Bob <bob@x.com>'')
   \<and> map website_email (contacts store_bob) = [''bob@x.com'']
   \<and> snd (parseaddr env0 (Some ''Bob <bob@x.com>'')) = ''bob@x.com''"
proof -
  from website_email_parsed[OF create_bob] obtain raw c where
    c: "data_get bob_body ''contact'' = Inr raw" "contacts store_bob = contacts store0 @ [c]"
      "website_email c = snd (parseaddr env0 raw)"
    by blast
  from c(1) have raw: "raw = Some ''Bob <bob@x.com>''"
    by (simp add: bob_body_def)
  from c(2) have "map website_email (contacts store_bob) = [website_email c]"
    by (simp add: store0_def)
  with c raw create_bob show ?thesis
    by (simp add: parse_bob)
qed

text \<open>
  The claim as it was stated fails: the owner's request with the contact \<open>""\<close>
  succeeds, and the contact it stores has the empty string as \<open>website_email\<close>.
\<close>

theorem website_email_parsed_counterexample:
  "create_contact_route env0 rnd0 10 store0 1 1 blank_body
     = (Inr (P_contact blank_json, 201), store_blank)
   \<and> contacts store_blank = [blank] \<and> website_email blank = []"
  using create_blank by (simp add: store_blank_def blank_def)

subsection \<open>Serialising contacts\<close>

lemma most_recent_None: "(most_recent ls = None) = (ls = [])"
  by (induction ls) (auto split: option.splits)

lemma most_recent_Some:
  "most_recent ls = Some m \<Longrightarrow> m \<in> set ls \<and> (\<forall>l \<in> set ls. el_created_at l \<le> el_created_at m)"
proof (induction ls arbitrary: m)
  case Nil
  then show ?case by simp
next
  case (Cons l ls)
  show ?case
  proof (cases "most_recent ls")
    case None
    with Cons.prems show ?thesis
      by (simp add: most_recent_None)
  next
    case (Some m')
    from Cons.IH[OF Some] Cons.prems Some show ?thesis
      by (auto split: if_splits)
  qed
qed

lemma most_recent_Max:
  assumes "most_recent ls = Some m"
  shows "el_created_at m = Max (set (map el_created_at ls))"
proof -
  from most_recent_Some[OF assms]
  have "el_created_at m \<in> set (map el_created_at ls)"
    and "\<forall>t \<in> set (map el_created_at ls). t \<le> el_created_at m"
    by auto
  then show ?thesis
    by (intro Max_eqI[symmetric]) auto
qed

lemma last_reply_reply_logs: "last_reply st fe = most_recent (reply_logs st fe)"
  by (simp add: last_reply_def reply_logs_def)

lemma serialize_last_sent:
  "last_email_sent_timestamp (serialize_contact E st fe)
     = (if reply_logs st fe = [] then None
        else Some (Max (set (map el_created_at (reply_logs st fe)))))
   \<and> last_email_sent_date (serialize_contact E st fe)
     = (if reply_logs st fe = [] then None
        else Some (arrow_format E (Max (set (map el_created_at (reply_logs st fe))))))"
proof (cases "most_recent (reply_logs st fe)")
  case None
  then show ?thesis
    by (simp add: serialize_contact_def last_reply_reply_logs most_recent_None)
next
  case (Some m)
  then have "reply_logs st fe \<noteq> []"
    using most_recent_None[of "reply_logs st fe"] by auto
  with Some most_recent_Max[OF Some] show ?thesis
    by (simp add: serialize_contact_def last_reply_reply_logs)
qed

lemma serialize_contact_field:
  "contact (serialize_contact E st fe)
     = (if website_from fe = None \<or> website_from fe = Some [] then website_email fe
        else the (website_from fe))"
  by (auto simp: serialize_contact_def py_or_def Let_def split: option.splits)

lemma serialize_reverse_alias:
  "reverse_alias (serialize_contact E st fe) = display_name E fe @ '' <'' @ reply_email fe @ ''>''"
  by (simp add: serialize_contact_def website_send_to_def Let_def split: option.splits)

lemma serialize_creation:
  "creation_timestamp (serialize_contact E st fe) = c_created_at fe
   \<and> creation_date (serialize_contact E st fe) = arrow_format E (c_created_at fe)"
  by (simp add: serialize_contact_def Let_def split: option.splits)

text \<open>
  Claim C8. In the JSON of a contact, \<open>contact\<close> is \<open>website_from\<close> when it is
  present (neither null nor empty) and \<open>website_email\<close> otherwise; \<open>reverse_alias\<close>
  is the display name followed by the reply address in angle brackets, so it contains
  the reply address; \<open>last_email_sent_timestamp\<close> and \<open>last_email_sent_date\<close> are
  null when the contact has no reply-direction log and otherwise the greatest timestamp
  of its reply-direction logs and the date of that timestamp. A contact created from
  \<open>Bob <bob@x.com>\<close> is returned with that string as \<open>contact\<close> and with a
  \<open>reverse_alias\<close> that contains the generated reply address.
\<close>

theorem serialize_contact_fields:
  "contact (serialize_contact E st fe)
     = (if website_from fe = None \<or> website_from fe = Some [] then website_email fe
        else the (website_from fe))
   \<and> reverse_alias (serialize_contact E st fe)
     = display_name E fe @ '' <'' @ reply_email fe @ ''>''
   \<and> (\<exists>pre post. reverse_alias (serialize_contact E st fe) = pre @ reply_email fe @ post)
   \<and> last_email_sent_timestamp (serialize_contact E st fe)
     = (if reply_logs st fe = [] then None
        else Some (Max (set (map el_created_at (reply_logs st fe)))))
   \<and> last_email_sent_date (serialize_contact E st fe)
     = (if reply_logs st fe = [] then None
        else Some (arrow_format E (Max (set (map el_created_at (reply_logs st fe))))))
   \<and> (data_get data ''contact'' = Inr (Some ''Bob <bob@x.com>'')
       \<and> create_contact_route E rnd now st uid aid data = (Inr (P_contact j, 201), st')
      \<longrightarrow> contact j = ''Bob <bob@x.com>''
        \<and> (\<exists>pre post. reverse_alias j = pre @ fst (generate_reply_email E rnd st) @ post))"
proof -
  have a: "contact (serialize_contact E st fe)
     = (if website_from fe = None \<or> website_from fe = Some [] then website_email fe
        else the (website_from fe))"
    by (rule serialize_contact_field)
  have b: "reverse_alias (serialize_contact E st fe)
     = display_name E fe @ '' <'' @ reply_email fe @ ''>''"
    by (rule serialize_reverse_alias)
  have c: "\<exists>pre post. reverse_alias (serialize_contact E st fe) = pre @ reply_email fe @ post"
    unfolding b by (intro exI[of _ "display_name E fe @ '' <''"] exI[of _ "''>''"]) simp
  note d = serialize_last_sent[of E st fe]
  have e: "data_get data ''contact'' = Inr (Some ''Bob <bob@x.com>'')
       \<and> create_contact_route E rnd now st uid aid data = (Inr (P_contact j, 201), st')
      \<longrightarrow> contact j = ''Bob <bob@x.com>''
        \<and> (\<exists>pre post. reverse_alias j = pre @ fst (generate_reply_email E rnd st) @ post)"
  proof (intro impI, elim conjE)
    assume dg: "data_get data ''contact'' = Inr (Some ''Bob <bob@x.com>'')"
      and cr: "create_contact_route E rnd now st uid aid data = (Inr (P_contact j, 201), st')"
    from create_contact_stored[OF cr] dg obtain c where
      c: "website_from c = Some ''Bob <bob@x.com>''"
        "reply_email c = fst (generate_reply_email E rnd st)" "j = serialize_contact E st' c"
      by auto
    have "contact j = ''Bob <bob@x.com>''"
      unfolding c(3) serialize_contact_field using c(1) by simp
    moreover have "reverse_alias j
        = (display_name E c @ '' <'') @ fst (generate_reply_email E rnd st) @ ''>''"
      unfolding c(3) serialize_reverse_alias using c(2) by simp
    ultimately show "contact j = ''Bob <bob@x.com>''
        \<and> (\<exists>pre post. reverse_alias j = pre @ fst (generate_reply_email E rnd st) @ post)"
      by blast
  qed
  from a b c d e show ?thesis by blast
qed

lemma env0_format_7: "arrow_format env0 7 = ''iiiiiii''"
  by (simp add: env0_def numeral_eq_Suc)

lemma reply_logs_alice: "map el_created_at (reply_logs store1 alice) = [7, 5]"
  by (simp add: reply_logs_def store1_def alice_def)

lemma reply_logs_dave: "reply_logs store1 dave = []"
  by (simp add: reply_logs_def store1_def dave_def)

theorem serialize_contact_fields_witness:
  "contact (serialize_contact env0 store1 alice) = ''Alice <alice@x.com>''
   \<and> contact (serialize_contact env0 store1 carol) = ''carol@x.com''
   \<and> contact (serialize_contact env0 store1 dave) = ''dave@x.com''
   \<and> reverse_alias (serialize_contact env0 store1 alice)
       = ''Alice <ra+aaaaaaaaaaaaaaaaaaaaaaaaa@sl.local>''
   \<and> last_email_sent_timestamp (serialize_contact env0 store1 alice) = Some 7
   \<and> last_email_sent_date (serialize_contact env0 store1 alice) = Some ''iiiiiii''
   \<and> last_email_sent_timestamp (serialize_contact env0 store1 dave) = None
   \<and> data_get bob_body ''contact'' = Inr (Some ''Bob <bob@x.com>'')
   \<and> create_contact_route env0 rnd0 10 store0 1 1 bob_body
       = (Inr (P_contact bob_json, 201), store_bob)
   \<and> contact bob_json = ''Bob <bob@x.com>''"
proof -
  have dg: "data_get bob_body ''contact'' = Inr (Some ''Bob <bob@x.com>'')"
    by (simp add: bob_body_def)
  have m: "Max (set (map el_created_at (reply_logs store1 alice))) = 7"
    unfolding reply_logs_alice by simp
  have ne: "reply_logs store1 alice \<noteq> []"
    using reply_logs_alice by auto
  from serialize_contact_fields[of env0 store1 alice]
    serialize_contact_fields[of env0 store1 carol]
    serialize_contact_fields[of env0 store1 dave]
    serialize_contact_fields[of env0 store0 alice bob_body rnd0 10 1 1 bob_json store_bob]
    dg create_bob m ne reply_logs_dave
  show ?thesis
    by (simp add: alice_def carol_def dave_def env0_display_name env0_format_7 py_or_def angle_addr_def)
qed

subsection \<open>Listing contacts\<close>

lemma serialize_loop_map: "serialize_loop E st q res = res @ map (serialize_contact E st) q"
  by (induction q arbitrary: res) simp_all

lemma sorted_desc_sort_key:
  "sorted_wrt (\<lambda>a b. c_id b \<le> c_id a) (rev (sort_key c_id cs))"
proof -
  have "sorted (map c_id (sort_key c_id cs))"
    by (rule sorted_sort_key)
  then have "sorted_wrt (\<lambda>a b. c_id a \<le> c_id b) (sort_key c_id cs)"
    by (simp add: sorted_map)
  then show ?thesis
    by (simp add: sorted_wrt_rev)
qed

text \<open>
  Claim C9. For a page index that is not negative, the query of
  \<^verbatim>\<open>get_alias_contacts\<close> succeeds: its rows are the contacts of the alias (and only
  those) by descending id, with \<open>page_id * PAGE_LIMIT\<close> rows skipped and at most
  \<open>PAGE_LIMIT\<close> rows kept, and the result is their serialisations in that order. When
  the offset is at or beyond the number of the alias's contacts, the result is the
  empty list, and the route answers 200 with it.
\<close>

theorem list_contacts_page:
  assumes "0 \<le> page_id"
  shows "\<exists>q every. contacts_query E st owned page_id = Inr q
     \<and> get_alias_contacts E st owned page_id = Inr (map (serialize_contact E st) q)
     \<and> mset every = mset (contacts_of st (a_id owned))
     \<and> sorted_wrt (\<lambda>a b. c_id b \<le> c_id a) every
     \<and> q = take (PAGE_LIMIT E) (drop (nat page_id * PAGE_LIMIT E) every)
     \<and> set q \<subseteq> {c. c \<in> set (contacts st) \<and> gen_email_id c = a_id owned}
     \<and> sorted_wrt (\<lambda>a b. c_id b \<le> c_id a) q
     \<and> length q \<le> PAGE_LIMIT E
     \<and> (length (contacts_of st (a_id owned)) \<le> nat page_id * PAGE_LIMIT E
         \<longrightarrow> q = [] \<and> get_alias_contacts E st owned page_id = Inr [])
     \<and> (Alias_get st aid = Inr owned \<and> a_user_id owned = uid \<and> parse_page_id E arg = Some page_id
         \<longrightarrow> get_alias_contacts_route E st uid aid arg
             = (Inr (P_contacts (map (serialize_contact E st) q), 200), st))"
proof -
  define every where "every = rev (sort_key c_id (contacts_of st (a_id owned)))"
  define q where "q = take (PAGE_LIMIT E) (drop (nat page_id * PAGE_LIMIT E) every)"
  have off: "nat (page_id * int (PAGE_LIMIT E)) = nat page_id * PAGE_LIMIT E"
    using assms by (simp add: nat_mult_distrib)
  have nonneg: "\<not> page_id * int (PAGE_LIMIT E) < 0"
    using assms by (simp add: not_less)
  have cq: "contacts_query E st owned page_id = Inr q"
    using nonneg off by (simp add: contacts_query_def q_def every_def contacts_of_def)
  have gc: "get_alias_contacts E st owned page_id = Inr (map (serialize_contact E st) q)"
    by (simp add: get_alias_contacts_def cq serialize_loop_map)
  have ms: "mset every = mset (contacts_of st (a_id owned))"
    by (simp add: every_def)
  have so: "sorted_wrt (\<lambda>a b. c_id b \<le> c_id a) every"
    unfolding every_def by (rule sorted_desc_sort_key)
  have "set q \<subseteq> set every"
    unfolding q_def by (meson set_take_subset set_drop_subset subset_trans)
  moreover have "set every = set (contacts_of st (a_id owned))"
    using ms by (rule mset_eq_setD)
  ultimately have sub: "set q \<subseteq> {c. c \<in> set (contacts st) \<and> gen_email_id c = a_id owned}"
    by (auto simp: contacts_of_def)
  have sq: "sorted_wrt (\<lambda>a b. c_id b \<le> c_id a) q"
    unfolding q_def using so by (intro sorted_wrt_take sorted_wrt_drop)
  have len: "length q \<le> PAGE_LIMIT E"
    by (simp add: q_def)
  have "length every = length (contacts_of st (a_id owned))"
    by (simp add: every_def)
  then have beyond: "length (contacts_of st (a_id owned)) \<le> nat page_id * PAGE_LIMIT E
         \<longrightarrow> q = [] \<and> get_alias_contacts E st owned page_id = Inr []"
    by (simp add: gc q_def)
  have route: "Alias_get st aid = Inr owned \<and> a_user_id owned = uid \<and> parse_page_id E arg = Some page_id
         \<longrightarrow> get_alias_contacts_route E st uid aid arg
             = (Inr (P_contacts (map (serialize_contact E st) q), 200), st)"
    by (simp add: get_alias_contacts_route_def gc)
  from cq gc ms so q_def sub sq len beyond route show ?thesis
    by blast
qed

lemma query_page0: "contacts_query env0 store1 alias1 0 = Inr [erin, dave]"
  by (simp add: contacts_query_def env0_def store1_def alias1_def alice_def carol_def dave_def erin_def)

lemma query_page1: "contacts_query env0 store1 alias1 1 = Inr [alice]"
  by (simp add: contacts_query_def env0_def store1_def alias1_def alice_def carol_def dave_def erin_def)

lemma query_page2: "contacts_query env0 store1 alias1 2 = Inr []"
  by (simp add: contacts_query_def env0_def store1_def alias1_def alice_def carol_def dave_def erin_def)

theorem list_contacts_page_witness:
  "(0::int) \<le> 2
   \<and> contacts_query env0 store1 alias1 0 = Inr [erin, dave]
   \<and> contacts_query env0 store1 alias1 1 = Inr [alice]
   \<and> contacts_query env0 store1 alias1 2 = Inr []
   \<and> get_alias_contacts env0 store1 alias1 2 = Inr []
   \<and> get_alias_contacts_route env0 store1 1 1 (Some ''2'') = (Inr (P_contacts [], 200), store1)"
proof -
  have p: "(0::int) \<le> 2"
    by simp
  have n: "length (contacts_of store1 (a_id alias1)) \<le> nat 2 * PAGE_LIMIT env0"
    by (simp add: contacts_of_def store1_def alias1_def alice_def carol_def dave_def erin_def env0_def)
  have g: "Alias_get store1 1 = Inr alias1 \<and> a_user_id alias1 = 1
      \<and> parse_page_id env0 (Some ''2'') = Some 2"
    by (simp add: Alias_get_def store1_def alias1_def parse_page_id_def env0_def decimal_def)
  from list_contacts_page[OF p, of env0 store1 alias1 1 1 "Some ''2''"] n g
  have "get_alias_contacts env0 store1 alias1 2 = Inr []
      \<and> get_alias_contacts_route env0 store1 1 1 (Some ''2'') = (Inr (P_contacts [], 200), store1)"
    by auto
  with p query_page0 query_page1 query_page2 show ?thesis
    by simp
qed

end
